theory Spec2Isabelle
  imports Complex_Main
begin

section \<open>Campaign data\<close>

text \<open>
  The embedding follows \<^verbatim>\<open>StarfoxMenuSystem.jsx\<close>. A level of
  \<^verbatim>\<open>CAMPAIGN_DATA.levels\<close> keeps the fields the orchestration code reads
  (\<^verbatim>\<open>id\<close>, \<^verbatim>\<open>nextChoices\<close>, \<^verbatim>\<open>isFinal\<close>) and the short
  display fields; the long display texts (\<^verbatim>\<open>subtitle\<close>, \<^verbatim>\<open>description\<close>) are
  only rendered and are left out. \<^verbatim>\<open>isFinal\<close> is written for level 5 only; a
  missing \<^verbatim>\<open>isFinal\<close> is \<^verbatim>\<open>undefined\<close>, which every reader of the field
  treats as false.
\<close>

record level =
  level_id :: string
  name :: string
  difficulty :: nat
  nextChoices :: "string list"
  environment :: string
  isFinal :: bool

definition CAMPAIGN_DATA_levels :: "(string \<times> level) list" where
  "CAMPAIGN_DATA_levels =
    [(''1'',  \<lparr>level_id = ''1'',  name = ''CORNERIA'', difficulty = 1,
               nextChoices = [''2a'', ''2b''], environment = ''city'', isFinal = False\<rparr>),
     (''2a'', \<lparr>level_id = ''2a'', name = ''METEO'', difficulty = 2,
               nextChoices = [''3''], environment = ''space'', isFinal = False\<rparr>),
     (''2b'', \<lparr>level_id = ''2b'', name = ''SECTOR Y'', difficulty = 3,
               nextChoices = [''3''], environment = ''space'', isFinal = False\<rparr>),
     (''3'',  \<lparr>level_id = ''3'',  name = ''AQUAS'', difficulty = 3,
               nextChoices = [''4a'', ''4b''], environment = ''underwater'', isFinal = False\<rparr>),
     (''4a'', \<lparr>level_id = ''4a'', name = ''ZONESS'', difficulty = 4,
               nextChoices = [''5''], environment = ''toxic'', isFinal = False\<rparr>),
     (''4b'', \<lparr>level_id = ''4b'', name = ''MACBETH'', difficulty = 4,
               nextChoices = [''5''], environment = ''industrial'', isFinal = False\<rparr>),
     (''5'',  \<lparr>level_id = ''5'',  name = ''VENOM'', difficulty = 5,
               nextChoices = [], environment = ''fortress'', isFinal = True\<rparr>)]"

text \<open>
  \<^verbatim>\<open>CAMPAIGN_DATA.levels[id]\<close>: the level, or \<^verbatim>\<open>undefined\<close> (\<open>None\<close>) for an
  id that is not a key. Keys that a JavaScript object inherits from its prototype
  (such as \<^verbatim>\<open>constructor\<close>) are outside this model: mission ids are taken to be
  ordinary strings.
\<close>

definition levels :: "string \<Rightarrow> level option" where
  "levels levelId = map_of CAMPAIGN_DATA_levels levelId"

record wingman =
  wingman_id :: string
  callsign :: string
  attack :: nat
  defense :: nat
  support :: nat

definition WINGMEN_DATA :: "wingman list" where
  "WINGMEN_DATA =
    [\<lparr>wingman_id = ''falco'', callsign = ''ACE'', attack = 5, defense = 2, support = 3\<rparr>,
     \<lparr>wingman_id = ''peppy'', callsign = ''VETERAN'', attack = 3, defense = 3, support = 5\<rparr>,
     \<lparr>wingman_id = ''slippy'', callsign = ''TECH'', attack = 2, defense = 4, support = 4\<rparr>]"

text \<open>The ids of the roster: the cards of the wingman screen are the entries of \<^verbatim>\<open>WINGMEN_DATA\<close>.\<close>

definition rosterIds :: "string list" where
  "rosterIds = map wingman_id WINGMEN_DATA"

record unlock =
  unlock_name :: string
  unlock_description :: string

text \<open>
  \<^verbatim>\<open>NEW_GAME_PLUS_UNLOCKS\<close>: an object with the integer keys 1 to 5.
  \<^verbatim>\<open>Object.entries\<close> lists integer keys in ascending order, which is the order
  of this list.
\<close>

definition NEW_GAME_PLUS_UNLOCKS :: "(nat \<times> unlock) list" where
  "NEW_GAME_PLUS_UNLOCKS =
    [(1, \<lparr>unlock_name = ''Expert Mode'', unlock_description = ''Enemies deal 50% more damage''\<rparr>),
     (2, \<lparr>unlock_name = ''Hyper Laser'', unlock_description = ''Start with upgraded weapons''\<rparr>),
     (3, \<lparr>unlock_name = ''Stealth Mode'', unlock_description = ''Reduced enemy detection range''\<rparr>),
     (4, \<lparr>unlock_name = ''Boss Rush'', unlock_description = ''Fight all bosses in sequence''\<rparr>),
     (5, \<lparr>unlock_name = ''Mirror Mode'', unlock_description = ''All levels are mirrored''\<rparr>)]"

section \<open>The state of the menu component\<close>

datatype screen =
  Loading | MainMenu | Options | WingmanChoice | Mission | Playing | Results
  | CampaignChoice | GameComplete

text \<open>
  The options object. Its \<^verbatim>\<open>difficulty\<close> field is \<open>difficultySetting\<close> here
  (a level has a \<^verbatim>\<open>difficulty\<close> too). The component stores and copies
  options and never computes with them.
\<close>

record options =
  masterVolume :: real
  musicVolume :: real
  sfxVolume :: real
  voiceVolume :: real
  showFPS :: bool
  screenShake :: bool
  subtitles :: bool
  difficultySetting :: string

text \<open>
  The results object the parent passes as \<^verbatim>\<open>externalLevelResults\<close>. The
  component reads \<^verbatim>\<open>completed\<close> and \<^verbatim>\<open>score\<close>; the other fields are
  displayed only. Scores are integers (JavaScript numbers within the exactly
  representable range), so \<^verbatim>\<open>score || 0\<close> is the score itself.
\<close>

record results =
  completed :: bool
  score :: int
  hits :: int
  accuracy :: int
  rank :: string
  bonuses :: "string list"

text \<open>
  The object that \<^verbatim>\<open>saveProgress\<close> writes under the key
  \<^verbatim>\<open>currentProgress\<close> and that \<^verbatim>\<open>gameProgress\<close> holds in memory. Its
  fields carry the prefix \<open>p_\<close> (the state variables have the same names in
  the source).
\<close>

record progress =
  p_options :: options
  p_currentLevel :: string
  p_completedLevels :: "string list"
  p_selectedWingmen :: "string list"
  p_totalScore :: int
  p_completedRuns :: nat

text \<open>
  The \<^verbatim>\<open>useState\<close> variables of \<^verbatim>\<open>StarfoxMenuSystem\<close>, and \<open>db\<close>: the
  record of the IndexedDB object store under the key \<^verbatim>\<open>currentProgress\<close>
  (\<open>None\<close> when there is none).
\<close>

record menu_state =
  screen :: screen
  gameProgress :: "progress option"
  options :: options
  selectedWingmen :: "string list"
  currentLevel :: string
  completedLevels :: "string list"
  totalScore :: int
  lastResults :: "results option"
  db :: "progress option"

definition defaultOptions :: options where
  "defaultOptions =
    \<lparr>masterVolume = 8 / 10, musicVolume = 7 / 10, sfxVolume = 1, voiceVolume = 1,
     showFPS = False, screenShake = True, subtitles = True,
     difficultySetting = ''normal''\<rparr>"

text \<open>The component as mounted, over a store that holds \<open>stored\<close>.\<close>

definition initialState :: "progress option \<Rightarrow> menu_state" where
  "initialState stored =
    \<lparr>screen = Loading, gameProgress = None, options = defaultOptions,
     selectedWingmen = [], currentLevel = ''1'', completedLevels = [],
     totalScore = 0, lastResults = None, db = stored\<rparr>"

section \<open>Persistence\<close>

text \<open>
  Every store operation opens the database and runs one request; either can be
  rejected. The outcome is the environment's: each operation takes a flag \<open>ok\<close>
  that says whether the request succeeded. The asynchronous completion of a
  request is taken at the end of the handler that issued it.

  \<^verbatim>\<open>loadProgress\<close> (the mount effect): a saved record becomes
  \<^verbatim>\<open>gameProgress\<close> and its options the current options; a failure is logged.
  Either way the main menu is shown.
\<close>

definition loadProgress :: "bool \<Rightarrow> menu_state \<Rightarrow> menu_state" where
  "loadProgress ok s =
    (if ok then
       (case db s of
          None \<Rightarrow> s\<lparr>screen := MainMenu\<rparr>
        | Some saved \<Rightarrow>
            s\<lparr>gameProgress := Some saved, options := p_options saved, screen := MainMenu\<rparr>)
     else s\<lparr>screen := MainMenu\<rparr>)"

text \<open>\<^verbatim>\<open>gameProgress?.completedRuns || 0\<close>\<close>

definition completedRunsOf :: "progress option \<Rightarrow> nat" where
  "completedRunsOf g = (case g of None \<Rightarrow> 0 | Some p \<Rightarrow> p_completedRuns p)"

text \<open>
  \<^verbatim>\<open>saveProgress(updates)\<close>: the snapshot of the state variables as the
  handler's render saw them, overridden by \<open>updates\<close> (the spread
  \<^verbatim>\<open>...updates\<close>, a function that sets the given fields). A successful
  write replaces the stored record and \<^verbatim>\<open>gameProgress\<close>; a failed write is
  logged and changes nothing. A handler's own \<^verbatim>\<open>set...\<close> calls are not
  visible to the snapshot, so the handlers below save from the state they were
  called in and then apply their updates.
\<close>

definition snapshot :: "menu_state \<Rightarrow> progress" where
  "snapshot s =
    \<lparr>p_options = options s, p_currentLevel = currentLevel s,
     p_completedLevels = completedLevels s, p_selectedWingmen = selectedWingmen s,
     p_totalScore = totalScore s, p_completedRuns = completedRunsOf (gameProgress s)\<rparr>"

definition saveProgress :: "bool \<Rightarrow> (progress \<Rightarrow> progress) \<Rightarrow> menu_state \<Rightarrow> menu_state" where
  "saveProgress ok updates s =
    (let progress = updates (snapshot s)
     in if ok then s\<lparr>db := Some progress, gameProgress := Some progress\<rparr> else s)"

section \<open>Screen handlers\<close>

definition handleNewGame :: "menu_state \<Rightarrow> menu_state" where
  "handleNewGame s =
    s\<lparr>selectedWingmen := [], currentLevel := ''1'', completedLevels := [],
      totalScore := 0, screen := WingmanChoice\<rparr>"

text \<open>
  \<^verbatim>\<open>handleContinue\<close>. The defaults \<^verbatim>\<open>|| []\<close> and \<^verbatim>\<open>|| 0\<close> return the
  field itself for a list or an integer; \<^verbatim>\<open>currentLevel || '1'\<close> replaces
  the empty string, which is falsy.
\<close>

definition handleContinue :: "menu_state \<Rightarrow> menu_state" where
  "handleContinue s =
    (case gameProgress s of
       None \<Rightarrow> s
     | Some g \<Rightarrow>
         s\<lparr>selectedWingmen := p_selectedWingmen g,
           currentLevel := (if p_currentLevel g = [] then ''1'' else p_currentLevel g),
           completedLevels := p_completedLevels g,
           totalScore := p_totalScore g,
           screen :=
             (if length (p_completedLevels g) > 0 then CampaignChoice
              else if length (p_selectedWingmen g) > 0 then Mission
              else WingmanChoice)\<rparr>)"

text \<open>
  The Continue button of the main menu:
  \<^verbatim>\<open>disabled={!hasSaveData}\<close> with
  \<^verbatim>\<open>hasSaveData={!!gameProgress?.selectedWingmen?.length}\<close>.
\<close>

definition continueDisabled :: "menu_state \<Rightarrow> bool" where
  "continueDisabled s =
    (case gameProgress s of None \<Rightarrow> True | Some g \<Rightarrow> length (p_selectedWingmen g) = 0)"

definition clickContinue :: "menu_state \<Rightarrow> menu_state" where
  "clickContinue s = (if continueDisabled s then s else handleContinue s)"

text \<open>\<^verbatim>\<open>handleToggle\<close> of \<^verbatim>\<open>WingmanChoiceScreen\<close>, returning the new selection.\<close>

definition handleToggle :: "nat \<Rightarrow> string list \<Rightarrow> string \<Rightarrow> string list" where
  "handleToggle maxSelections selected wingmanId =
    (if wingmanId \<in> set selected then filter (\<lambda>i. i \<noteq> wingmanId) selected
     else if length selected < maxSelections then selected @ [wingmanId]
     else selected)"

text \<open>The screen is rendered with \<^verbatim>\<open>maxSelections={2}\<close> and \<^verbatim>\<open>onSelect={setSelectedWingmen}\<close>.\<close>

definition maxSelections :: nat where
  "maxSelections = 2"

definition toggleWingman :: "string \<Rightarrow> menu_state \<Rightarrow> menu_state" where
  "toggleWingman wingmanId s =
    s\<lparr>selectedWingmen := handleToggle maxSelections (selectedWingmen s) wingmanId\<rparr>"

text \<open>A sequence of clicks on wingman cards, oldest first.\<close>

fun toggles :: "string list \<Rightarrow> string list \<Rightarrow> string list" where
  "toggles selected [] = selected"
| "toggles selected (w # ws) = toggles (handleToggle maxSelections selected w) ws"

definition handleWingmenConfirm :: "bool \<Rightarrow> menu_state \<Rightarrow> menu_state" where
  "handleWingmenConfirm ok s =
    (saveProgress ok (\<lambda>p. p\<lparr>p_selectedWingmen := selectedWingmen s\<rparr>) s)\<lparr>screen := Mission\<rparr>"

text \<open>
  The Confirm Team button: \<^verbatim>\<open>disabled={selectedWingmen.length !== maxSelections}\<close>.
  A disabled button delivers no click.
\<close>

definition confirmDisabled :: "menu_state \<Rightarrow> bool" where
  "confirmDisabled s = (length (selectedWingmen s) \<noteq> maxSelections)"

definition clickConfirm :: "bool \<Rightarrow> menu_state \<Rightarrow> menu_state" where
  "clickConfirm ok s = (if confirmDisabled s then s else handleWingmenConfirm ok s)"

text \<open>The Back button of the mission briefing (the \<^verbatim>\<open>onBack\<close> given to \<^verbatim>\<open>MissionScreen\<close>).\<close>

definition missionBack :: "menu_state \<Rightarrow> menu_state" where
  "missionBack s =
    (if length (completedLevels s) > 0 then s\<lparr>screen := CampaignChoice\<rparr>
     else s\<lparr>screen := WingmanChoice\<rparr>)"

definition handleStartMission :: "menu_state \<Rightarrow> menu_state" where
  "handleStartMission s = s\<lparr>screen := Playing\<rparr>"

text \<open>
  The effect on \<^verbatim>\<open>[externalLevelResults, levelInProgress]\<close>: results that
  arrive while no level is in progress are kept and shown.
\<close>

definition onExternalLevelResults :: "results option \<Rightarrow> bool \<Rightarrow> menu_state \<Rightarrow> menu_state" where
  "onExternalLevelResults externalLevelResults levelInProgress s =
    (case externalLevelResults of
       None \<Rightarrow> s
     | Some r \<Rightarrow> if \<not> levelInProgress then s\<lparr>lastResults := Some r, screen := Results\<rparr> else s)"

text \<open>\<^verbatim>\<open>levelData?.isFinal\<close>\<close>

definition levelIsFinal :: "string \<Rightarrow> bool" where
  "levelIsFinal levelId = (case levels levelId of None \<Rightarrow> False | Some l \<Rightarrow> isFinal l)"

text \<open>\<^verbatim>\<open>lastResults?.completed\<close>\<close>

definition resultsCompleted :: "results option \<Rightarrow> bool" where
  "resultsCompleted r = (case r of None \<Rightarrow> False | Some x \<Rightarrow> completed x)"

text \<open>\<^verbatim>\<open>lastResults?.score || 0\<close>\<close>

definition resultsScore :: "results option \<Rightarrow> int" where
  "resultsScore r = (case r of None \<Rightarrow> 0 | Some x \<Rightarrow> score x)"

definition handleResultsContinue :: "bool \<Rightarrow> menu_state \<Rightarrow> menu_state" where
  "handleResultsContinue ok s =
    (if \<not> resultsCompleted (lastResults s) then s\<lparr>screen := Mission\<rparr>
     else
       let newCompletedLevels = completedLevels s @ [currentLevel s];
           newTotalScore = totalScore s + resultsScore (lastResults s)
       in if levelIsFinal (currentLevel s) then
            let newCompletedRuns = completedRunsOf (gameProgress s) + 1
            in (saveProgress ok
                  (\<lambda>p. p\<lparr>p_completedLevels := newCompletedLevels,
                         p_totalScore := newTotalScore,
                         p_completedRuns := newCompletedRuns,
                         p_currentLevel := ''1''\<rparr>) s)
               \<lparr>completedLevels := newCompletedLevels, totalScore := newTotalScore,
                screen := GameComplete\<rparr>
          else
            (saveProgress ok
               (\<lambda>p. p\<lparr>p_completedLevels := newCompletedLevels,
                      p_totalScore := newTotalScore\<rparr>) s)
            \<lparr>completedLevels := newCompletedLevels, totalScore := newTotalScore,
             screen := CampaignChoice\<rparr>)"

definition handleLevelSelect :: "bool \<Rightarrow> string \<Rightarrow> menu_state \<Rightarrow> menu_state" where
  "handleLevelSelect ok levelId s =
    (saveProgress ok (\<lambda>p. p\<lparr>p_currentLevel := levelId\<rparr>) s)
    \<lparr>currentLevel := levelId, screen := Mission\<rparr>"

text \<open>
  \<^verbatim>\<open>handleNewGamePlus\<close> awaits \<^verbatim>\<open>clearGameProgress()\<close> first: when the
  delete is rejected the handler stops there and nothing is set.
\<close>

definition handleNewGamePlus :: "bool \<Rightarrow> menu_state \<Rightarrow> menu_state" where
  "handleNewGamePlus ok s =
    (if ok then
       s\<lparr>db := None, selectedWingmen := [], currentLevel := ''1'', completedLevels := [],
         totalScore := 0, screen := WingmanChoice\<rparr>
     else s)"

definition handleMainMenu :: "menu_state \<Rightarrow> menu_state" where
  "handleMainMenu s = s\<lparr>screen := MainMenu\<rparr>"

text \<open>
  \<^verbatim>\<open>getAvailableChoices\<close>. The last completed level is read by index,
  \<^verbatim>\<open>completedLevels[completedLevels.length - 1]\<close>, after the test that the
  list is not empty.
\<close>

definition getAvailableChoices :: "menu_state \<Rightarrow> string list" where
  "getAvailableChoices s =
    (if length (completedLevels s) = 0 then [''1'']
     else
       let lastCompleted = completedLevels s ! (length (completedLevels s) - 1)
       in (case levels lastCompleted of
             None \<Rightarrow> []
           | Some lastLevelData \<Rightarrow>
               filter (\<lambda>levelId. levelId \<notin> set (completedLevels s)) (nextChoices lastLevelData)))"

section \<open>The game-complete screen\<close>

text \<open>
  \<^verbatim>\<open>GameCompleteScreen\<close> computes the unlocks to list and the new unlock
  from its \<^verbatim>\<open>newGamePlusLevel\<close> property.
\<close>

definition unlocks :: "nat \<Rightarrow> unlock list" where
  "unlocks newGamePlusLevel =
    map snd (filter (\<lambda>(level, u). level \<le> newGamePlusLevel) NEW_GAME_PLUS_UNLOCKS)"

definition newUnlock :: "nat \<Rightarrow> unlock option" where
  "newUnlock newGamePlusLevel = map_of NEW_GAME_PLUS_UNLOCKS newGamePlusLevel"

text \<open>
  The property as \<^verbatim>\<open>renderScreen\<close> passes it:
  \<^verbatim>\<open>newGamePlusLevel={gameProgress?.completedRuns || 1}\<close>, where a count of 0 is
  falsy.
\<close>

definition newGamePlusLevelShown :: "menu_state \<Rightarrow> nat" where
  "newGamePlusLevelShown s =
    (if completedRunsOf (gameProgress s) = 0 then 1 else completedRunsOf (gameProgress s))"

section \<open>The available-choices query as the specification words it\<close>

text \<open>
  The specification's query, for comparison with \<open>getAvailableChoices\<close>: the
  entry mission alone for an empty path, otherwise the successors of the path's
  last element without the missions already on the path. \<open>successorsOf\<close> is the
  \<^verbatim>\<open>nextChoices\<close> of a mission; a mission that is not in the campaign has no
  successors.
\<close>

definition entryMission :: string where
  "entryMission = ''1''"

definition successorsOf :: "string \<Rightarrow> string list" where
  "successorsOf missionId = (case levels missionId of None \<Rightarrow> [] | Some m \<Rightarrow> nextChoices m)"

definition availableChoices_spec :: "string list \<Rightarrow> string list" where
  "availableChoices_spec completedPath =
    (if completedPath = [] then [entryMission]
     else filter (\<lambda>i. i \<notin> set completedPath) (successorsOf (last completedPath)))"

section \<open>Concrete runs\<close>

text \<open>
  States and runs at which the theorems below are evaluated. \<open>launchedRun\<close> is
  a first session on an empty store: the load at mount, New Game, Falco and Peppy
  chosen, the team confirmed, the mission launched. \<open>reportedOnce\<close> is that run
  after the parent has delivered a victory and the player has continued;
  \<open>reportedTwice\<close> is the run after the parent has delivered the same victory a
  second time, before any next mission was chosen.
\<close>

definition victory :: results where
  "victory =
    \<lparr>completed = True, score = 1000, hits = 42, accuracy = 87, rank = ''A'', bonuses = []\<rparr>"

definition defeat :: results where
  "defeat =
    \<lparr>completed = False, score = 500, hits = 7, accuracy = 31, rank = ''D'', bonuses = []\<rparr>"

definition launchedRun :: menu_state where
  "launchedRun =
    handleStartMission (clickConfirm True (toggleWingman ''peppy'' (toggleWingman ''falco''
      (handleNewGame (loadProgress True (initialState None))))))"

definition reportedOnce :: menu_state where
  "reportedOnce =
    handleResultsContinue True (onExternalLevelResults (Some victory) False launchedRun)"

definition reportedTwice :: menu_state where
  "reportedTwice =
    handleResultsContinue True (onExternalLevelResults (Some victory) False reportedOnce)"

text \<open>\<open>secondMissionWon\<close>: \<open>reportedOnce\<close>, then mission 2a chosen, launched and won.\<close>

definition secondMissionWon :: menu_state where
  "secondMissionWon =
    handleResultsContinue True (onExternalLevelResults (Some victory) False
      (handleStartMission (handleLevelSelect True ''2a'' reportedOnce)))"

text \<open>
  \<open>finalMissionWon\<close>: a third run at the results screen of the final mission,
  two runs completed before, the victory not yet acknowledged.
\<close>

definition savedBeforeFinal :: progress where
  "savedBeforeFinal =
    \<lparr>p_options = defaultOptions, p_currentLevel = ''5'',
     p_completedLevels = [''1'', ''2a'', ''3'', ''4b''],
     p_selectedWingmen = [''falco'', ''peppy''], p_totalScore = 4000, p_completedRuns = 2\<rparr>"

definition finalMissionWon :: menu_state where
  "finalMissionWon =
    \<lparr>screen = Results, gameProgress = Some savedBeforeFinal, options = defaultOptions,
     selectedWingmen = [''falco'', ''peppy''], currentLevel = ''5'',
     completedLevels = [''1'', ''2a'', ''3'', ''4b''], totalScore = 4000,
     lastResults = Some victory, db = Some savedBeforeFinal\<rparr>"

text \<open>
  \<open>strangersSelected\<close>: the store holds a record whose squad names two pilots
  that are not in the roster (a record of another roster); the player continues
  to the briefing and goes back to the wingman screen. \<open>runCompleted\<close> is
  \<open>finalMissionWon\<close> after the victory is acknowledged.
\<close>

definition savedStrangers :: progress where
  "savedStrangers =
    \<lparr>p_options = defaultOptions, p_currentLevel = ''1'', p_completedLevels = [],
     p_selectedWingmen = [''krystal'', ''bill''], p_totalScore = 0, p_completedRuns = 0\<rparr>"

definition strangersSelected :: menu_state where
  "strangersSelected =
    missionBack (handleContinue (loadProgress True (initialState (Some savedStrangers))))"

text \<open>\<open>savedNothing\<close>: a record written after New Game Plus, before a squad is chosen.\<close>

definition savedNothing :: progress where
  "savedNothing =
    \<lparr>p_options = defaultOptions, p_currentLevel = ''1'', p_completedLevels = [],
     p_selectedWingmen = [], p_totalScore = 0, p_completedRuns = 1\<rparr>"

definition runCompleted :: menu_state where
  "runCompleted = handleResultsContinue True finalMissionWon"

section \<open>Saving and the results handler\<close>




lemma hrc_retry:
  "\<not> resultsCompleted (lastResults s) \<Longrightarrow> handleResultsContinue ok s = s\<lparr>screen := Mission\<rparr>"
  by (simp add: handleResultsContinue_def)

lemma hrc_completedLevels:
  "resultsCompleted (lastResults s) \<Longrightarrow>
   completedLevels (handleResultsContinue ok s) = completedLevels s @ [currentLevel s]"
  by (simp add: handleResultsContinue_def Let_def)

lemma hrc_totalScore:
  "resultsCompleted (lastResults s) \<Longrightarrow>
   totalScore (handleResultsContinue ok s) = totalScore s + resultsScore (lastResults s)"
  by (simp add: handleResultsContinue_def Let_def)

lemma hrc_screen:
  "resultsCompleted (lastResults s) \<Longrightarrow>
   screen (handleResultsContinue ok s) =
     (if levelIsFinal (currentLevel s) then GameComplete else CampaignChoice)"
  by (simp add: handleResultsContinue_def Let_def)




lemma levelIsFinal_1: "\<not> levelIsFinal ''1''"
  by (simp add: levelIsFinal_def levels_def CAMPAIGN_DATA_levels_def)

lemma launchedRun_eq:
  "launchedRun =
    \<lparr>screen = Playing,
     gameProgress = Some \<lparr>p_options = defaultOptions, p_currentLevel = ''1'',
       p_completedLevels = [], p_selectedWingmen = [''falco'', ''peppy''], p_totalScore = 0,
       p_completedRuns = 0\<rparr>,
     options = defaultOptions, selectedWingmen = [''falco'', ''peppy''], currentLevel = ''1'',
     completedLevels = [], totalScore = 0, lastResults = None,
     db = Some \<lparr>p_options = defaultOptions, p_currentLevel = ''1'', p_completedLevels = [],
       p_selectedWingmen = [''falco'', ''peppy''], p_totalScore = 0, p_completedRuns = 0\<rparr>\<rparr>"
  by (simp add: launchedRun_def handleStartMission_def clickConfirm_def confirmDisabled_def
      handleWingmenConfirm_def saveProgress_def snapshot_def completedRunsOf_def toggleWingman_def
      handleToggle_def maxSelections_def handleNewGame_def loadProgress_def initialState_def Let_def)

lemma reportedOnce_eq:
  "reportedOnce =
    \<lparr>screen = CampaignChoice,
     gameProgress = Some \<lparr>p_options = defaultOptions, p_currentLevel = ''1'',
       p_completedLevels = [''1''], p_selectedWingmen = [''falco'', ''peppy''],
       p_totalScore = 1000, p_completedRuns = 0\<rparr>,
     options = defaultOptions, selectedWingmen = [''falco'', ''peppy''], currentLevel = ''1'',
     completedLevels = [''1''], totalScore = 1000, lastResults = Some victory,
     db = Some \<lparr>p_options = defaultOptions, p_currentLevel = ''1'', p_completedLevels = [''1''],
       p_selectedWingmen = [''falco'', ''peppy''], p_totalScore = 1000, p_completedRuns = 0\<rparr>\<rparr>"
  by (simp add: reportedOnce_def launchedRun_eq onExternalLevelResults_def handleResultsContinue_def
      resultsCompleted_def resultsScore_def levelIsFinal_1 saveProgress_def snapshot_def
      completedRunsOf_def victory_def Let_def)

lemma secondMissionWon_path:
  "completedLevels secondMissionWon = [''1'', ''2a'']"
  by (simp add: secondMissionWon_def reportedOnce_eq handleLevelSelect_def handleStartMission_def
      onExternalLevelResults_def handleResultsContinue_def resultsCompleted_def victory_def
      saveProgress_def Let_def)

lemma levels_1: "levels ''1'' = Some \<lparr>level_id = ''1'',  name = ''CORNERIA'', difficulty = 1,
               nextChoices = [''2a'', ''2b''], environment = ''city'', isFinal = False\<rparr>"
  by (simp add: levels_def CAMPAIGN_DATA_levels_def)

lemma levels_2a: "levels ''2a'' = Some \<lparr>level_id = ''2a'', name = ''METEO'', difficulty = 2,
               nextChoices = [''3''], environment = ''space'', isFinal = False\<rparr>"
  by (simp add: levels_def CAMPAIGN_DATA_levels_def)

lemma levelIsFinal_iff: "levelIsFinal levelId = (levelId = ''5'')"
  by (simp add: levelIsFinal_def levels_def CAMPAIGN_DATA_levels_def)

lemma loadProgress_saved:
  "loadProgress True (initialState (Some g)) =
    \<lparr>screen = MainMenu, gameProgress = Some g, options = p_options g,
     selectedWingmen = [], currentLevel = ''1'', completedLevels = [],
     totalScore = 0, lastResults = None, db = Some g\<rparr>"
  by (simp add: loadProgress_def initialState_def)

text \<open>
  Through the Continue button the wingman screen is never the destination: the
  button is disabled while the record has no squad.
\<close>

lemma clickContinue_screen:
  "screen (clickContinue s) = WingmanChoice \<Longrightarrow> screen s = WingmanChoice"
  by (auto simp: clickContinue_def continueDisabled_def handleContinue_def
      split: option.splits if_splits)

lemma strangersSelected_eq:
  "strangersSelected =
    \<lparr>screen = WingmanChoice, gameProgress = Some savedStrangers, options = defaultOptions,
     selectedWingmen = [''krystal'', ''bill''], currentLevel = ''1'', completedLevels = [],
     totalScore = 0, lastResults = None, db = Some savedStrangers\<rparr>"
  by (simp add: strangersSelected_def loadProgress_saved handleContinue_def missionBack_def
      savedStrangers_def)

lemma rosterIds_eq: "rosterIds = [''falco'', ''peppy'', ''slippy'']"
  by (simp add: rosterIds_def WINGMEN_DATA_def)

lemma handleToggle_subset:
  "set (handleToggle n sel w) \<subseteq> insert w (set sel)"
  by (auto simp: handleToggle_def)

lemma toggles_subset: "set (toggles sel ws) \<subseteq> set sel \<union> set ws"
proof (induction ws arbitrary: sel)
  case Nil
  then show ?case by simp
next
  case (Cons w ws)
  have "set (toggles (handleToggle maxSelections sel w) ws)
          \<subseteq> set (handleToggle maxSelections sel w) \<union> set ws"
    by (rule Cons.IH)
  also have "\<dots> \<subseteq> insert w (set sel) \<union> set ws"
    using handleToggle_subset [of maxSelections sel w] by blast
  finally show ?case by auto
qed

lemma levelIsFinal_5: "levelIsFinal ''5''"
  by (simp add: levelIsFinal_iff)

lemma runCompleted_eq:
  "runCompleted =
    \<lparr>screen = GameComplete,
     gameProgress = Some \<lparr>p_options = defaultOptions, p_currentLevel = ''1'',
       p_completedLevels = [''1'', ''2a'', ''3'', ''4b'', ''5''],
       p_selectedWingmen = [''falco'', ''peppy''], p_totalScore = 5000, p_completedRuns = 3\<rparr>,
     options = defaultOptions, selectedWingmen = [''falco'', ''peppy''], currentLevel = ''5'',
     completedLevels = [''1'', ''2a'', ''3'', ''4b'', ''5''], totalScore = 5000,
     lastResults = Some victory,
     db = Some \<lparr>p_options = defaultOptions, p_currentLevel = ''1'',
       p_completedLevels = [''1'', ''2a'', ''3'', ''4b'', ''5''],
       p_selectedWingmen = [''falco'', ''peppy''], p_totalScore = 5000, p_completedRuns = 3\<rparr>\<rparr>"
  by (simp add: runCompleted_def finalMissionWon_def savedBeforeFinal_def handleResultsContinue_def
      resultsCompleted_def resultsScore_def levelIsFinal_5 saveProgress_def snapshot_def
      completedRunsOf_def victory_def Let_def)

section \<open>The unlock table\<close>

lemma newUnlock_beyond: "5 < n \<Longrightarrow> newUnlock n = None"
  by (simp add: newUnlock_def NEW_GAME_PLUS_UNLOCKS_def)

lemma unlocks_capped: "5 \<le> n \<Longrightarrow> unlocks n = map snd NEW_GAME_PLUS_UNLOCKS"
  by (simp add: unlocks_def NEW_GAME_PLUS_UNLOCKS_def)

lemma unlocks_take: "unlocks n = map snd (take n NEW_GAME_PLUS_UNLOCKS)"
proof -
  consider "n = 0" | "n = 1" | "n = 2" | "n = 3" | "n = 4" | "5 \<le> n" by linarith
  then show ?thesis
    by cases (simp_all add: unlocks_def NEW_GAME_PLUS_UNLOCKS_def)
qed

lemma newUnlock_Some_iff: "newUnlock n = Some u \<longleftrightarrow> (n, u) \<in> set NEW_GAME_PLUS_UNLOCKS"
proof -
  have "distinct (map fst NEW_GAME_PLUS_UNLOCKS)"
    by (simp add: NEW_GAME_PLUS_UNLOCKS_def)
  then show ?thesis
    unfolding newUnlock_def by (rule map_of_eq_Some_iff)
qed

lemma unlocks_set: "set (unlocks n) = {u. \<exists>t. t \<le> n \<and> (t, u) \<in> set NEW_GAME_PLUS_UNLOCKS}"
  by (force simp: unlocks_def)

text \<open>
  The screen is never rendered for level 0: with no completed run on record the
  renderer passes 1, and the first tier is listed.
\<close>

lemma newGamePlusLevelShown_zero:
  "completedRunsOf (gameProgress s) = 0 \<Longrightarrow>
   newGamePlusLevelShown s = 1 \<and> newUnlock (newGamePlusLevelShown s) = newUnlock 1"
  by (simp add: newGamePlusLevelShown_def)

lemma newGamePlusLevelShown_positive:
  "0 < completedRunsOf (gameProgress s) \<Longrightarrow>
   newGamePlusLevelShown s = completedRunsOf (gameProgress s)"
  by (simp add: newGamePlusLevelShown_def)

section \<open>Toggling wingmen\<close>

lemma handleToggle_selected:
  "w \<in> set sel \<Longrightarrow> handleToggle n sel w = filter (\<lambda>i. i \<noteq> w) sel"
  by (simp add: handleToggle_def)

lemma handleToggle_full:
  "w \<notin> set sel \<Longrightarrow> \<not> length sel < n \<Longrightarrow> handleToggle n sel w = sel"
  by (simp add: handleToggle_def)

lemma handleToggle_add:
  "w \<notin> set sel \<Longrightarrow> length sel < n \<Longrightarrow> handleToggle n sel w = sel @ [w]"
  by (simp add: handleToggle_def)

lemma filter_neq_remove1:
  "distinct sel \<Longrightarrow> filter (\<lambda>i. i \<noteq> w) sel = remove1 w sel"
  by (induction sel) (auto simp: remove1_idem)

lemma handleToggle_distinct: "distinct sel \<Longrightarrow> distinct (handleToggle n sel w)"
  by (simp add: handleToggle_def)

lemma handleToggle_length:
  assumes "length sel \<le> n"
  shows "length (handleToggle n sel w) \<le> n"
proof (cases "w \<in> set sel")
  case True
  have "length (filter (\<lambda>i. i \<noteq> w) sel) \<le> length sel"
    by (rule length_filter_le)
  also note assms
  finally show ?thesis using True by (simp add: handleToggle_def)
next
  case False
  then show ?thesis using assms by (simp add: handleToggle_def)
qed

lemma toggles_invariant:
  "distinct sel \<Longrightarrow> length sel \<le> maxSelections \<Longrightarrow>
   distinct (toggles sel ws) \<and> length (toggles sel ws) \<le> maxSelections"
proof (induction ws arbitrary: sel)
  case Nil
  then show ?case by simp
next
  case (Cons w ws)
  have "distinct (handleToggle maxSelections sel w)"
    using Cons.prems(1) by (rule handleToggle_distinct)
  moreover have "length (handleToggle maxSelections sel w) \<le> maxSelections"
    using Cons.prems(2) by (rule handleToggle_length)
  ultimately show ?case
    using Cons.IH by simp
qed

lemma toggles_three: "toggles [] [''falco'', ''peppy'', ''slippy''] = [''falco'', ''peppy'']"
  by (simp add: handleToggle_def maxSelections_def)

section \<open>Claims\<close>

text \<open>
  C1. The claim: a victorious outcome for a mission that is already in
  \<open>completedLevels\<close> is rejected with DuplicateCompletion and the run state is
  left unchanged, so that \<open>completedLevels\<close> never holds a mission twice.
  \<^verbatim>\<open>handleResultsContinue\<close> has no such test. In the run \<open>reportedTwice\<close>, where
  the victory for mission 1 is delivered and acknowledged twice, mission 1 is
  appended twice and its score is added twice.
\<close>

theorem duplicate_completion_counterexample:
  "currentLevel reportedOnce = ''1'' \<and> completedLevels reportedOnce = [''1''] \<and>
   completedLevels reportedTwice = [''1'', ''1''] \<and> totalScore reportedTwice = 2000 \<and>
   screen reportedTwice = CampaignChoice \<and> \<not> distinct (completedLevels reportedTwice)"
  by (simp add: reportedTwice_def reportedOnce_eq onExternalLevelResults_def handleResultsContinue_def
      resultsCompleted_def resultsScore_def levelIsFinal_1 saveProgress_def snapshot_def
      completedRunsOf_def victory_def Let_def)

text \<open>
  C1, as the code has it. Acknowledging a victorious outcome always appends the
  current mission to \<open>completedLevels\<close> and adds the score, whether or not the
  mission is already there, and leaves the results screen. The path is free of
  duplicates afterwards exactly when it was free of duplicates before and did
  not hold the current mission.
\<close>

theorem completion_appends_unchecked:
  assumes "lastResults s = Some r" and "completed r"
  shows "completedLevels (handleResultsContinue ok s) = completedLevels s @ [currentLevel s] \<and>
         totalScore (handleResultsContinue ok s) = totalScore s + score r \<and>
         screen (handleResultsContinue ok s) \<noteq> Results \<and>
         distinct (completedLevels (handleResultsContinue ok s)) =
           (distinct (completedLevels s) \<and> currentLevel s \<notin> set (completedLevels s))"
proof -
  have c: "resultsCompleted (lastResults s)"
    using assms by (simp add: resultsCompleted_def)
  have "completedLevels (handleResultsContinue ok s) = completedLevels s @ [currentLevel s]"
    using c by (rule hrc_completedLevels)
  moreover have "totalScore (handleResultsContinue ok s) = totalScore s + score r"
    using hrc_totalScore [OF c, of ok] assms(1) by (simp add: resultsScore_def)
  moreover have "screen (handleResultsContinue ok s) \<noteq> Results"
    using hrc_screen [OF c, of ok] by simp
  ultimately show ?thesis by auto
qed

theorem completion_appends_unchecked_witness:
  "lastResults reportedOnce = Some victory \<and> completed victory \<and>
   currentLevel reportedOnce \<in> set (completedLevels reportedOnce) \<and>
   completedLevels (handleResultsContinue True reportedOnce) = [''1'', ''1''] \<and>
   \<not> distinct (completedLevels (handleResultsContinue True reportedOnce))"
proof -
  have a: "lastResults reportedOnce = Some victory" by (simp add: reportedOnce_eq)
  have b: "completed victory" by (simp add: victory_def)
  show ?thesis
    using completion_appends_unchecked [OF a b, of True] a b by (simp add: reportedOnce_eq)
qed

text \<open>
  C2. \<open>getAvailableChoices\<close> is the specification's query on
  \<open>completedLevels\<close>: the entry mission 1 alone when nothing is completed,
  otherwise the \<^verbatim>\<open>nextChoices\<close> of the last completed mission, in their order,
  without the missions already completed. After mission 1 alone the choices are
  2a and 2b, in that order; after 1 and then 2a the only choice is 3.
\<close>

theorem availableChoices_refines:
  "getAvailableChoices s = availableChoices_spec (completedLevels s) \<and>
   (completedLevels s = [] \<longrightarrow> getAvailableChoices s = [''1'']) \<and>
   (completedLevels s = [''1''] \<longrightarrow> getAvailableChoices s = [''2a'', ''2b'']) \<and>
   (completedLevels s = [''1'', ''2a''] \<longrightarrow> getAvailableChoices s = [''3''])"
proof -
  have refines: "getAvailableChoices s = availableChoices_spec (completedLevels s)"
  proof (cases "completedLevels s = []")
    case True
    then show ?thesis
      by (simp add: getAvailableChoices_def availableChoices_spec_def entryMission_def)
  next
    case False
    then have "completedLevels s ! (length (completedLevels s) - 1) = last (completedLevels s)"
      by (simp add: last_conv_nth)
    with False show ?thesis
      by (simp add: getAvailableChoices_def availableChoices_spec_def successorsOf_def Let_def
          split: option.split)
  qed
  have "completedLevels s = [] \<longrightarrow> getAvailableChoices s = [''1'']"
    by (simp add: getAvailableChoices_def)
  moreover have "completedLevels s = [''1''] \<longrightarrow> getAvailableChoices s = [''2a'', ''2b'']"
    by (simp add: getAvailableChoices_def levels_1 Let_def)
  moreover have "completedLevels s = [''1'', ''2a''] \<longrightarrow> getAvailableChoices s = [''3'']"
    by (simp add: getAvailableChoices_def levels_2a Let_def)
  ultimately show ?thesis using refines by blast
qed

theorem availableChoices_refines_witness:
  "completedLevels (initialState None) = [] \<and>
   getAvailableChoices (initialState None) = [''1''] \<and>
   completedLevels reportedOnce = [''1''] \<and>
   getAvailableChoices reportedOnce = [''2a'', ''2b''] \<and>
   completedLevels secondMissionWon = [''1'', ''2a''] \<and>
   getAvailableChoices secondMissionWon = [''3''] \<and>
   availableChoices_spec [''1'', ''2a''] = [''3'']"
proof -
  have c0: "completedLevels (initialState None) = []" by (simp add: initialState_def)
  have c1: "completedLevels reportedOnce = [''1'']" by (simp add: reportedOnce_eq)
  note c2 = secondMissionWon_path
  have a0: "getAvailableChoices (initialState None) = [''1'']"
    using availableChoices_refines [of "initialState None"] c0 by blast
  have a1: "getAvailableChoices reportedOnce = [''2a'', ''2b'']"
    using availableChoices_refines [of reportedOnce] c1 by blast
  have a2: "getAvailableChoices secondMissionWon = [''3'']"
    using availableChoices_refines [of secondMissionWon] c2 by blast
  have "getAvailableChoices secondMissionWon = availableChoices_spec (completedLevels secondMissionWon)"
    using availableChoices_refines [of secondMissionWon] by blast
  then have "availableChoices_spec [''1'', ''2a''] = [''3'']"
    unfolding a2 c2 by (rule sym)
  with c0 c1 c2 a0 a1 a2 show ?thesis by blast
qed



text \<open>
  C4. The claim: New Game Plus clears only the run fields of the persisted
  record, keeps its \<open>completedRuns\<close> and options, and writes the fresh record
  after deleting the stale one. \<^verbatim>\<open>handleNewGamePlus\<close> deletes the whole
  stored record and writes nothing. At \<open>runCompleted\<close> (three runs completed)
  the store is empty afterwards, the record held in memory still has the
  completed path of the finished run, a component mounted on that store sees no
  completed run, and a rejected delete leaves the game-complete screen in
  place.
\<close>

theorem newGamePlus_deletes_record_counterexample:
  "screen runCompleted = GameComplete \<and>
   map_option p_completedRuns (db runCompleted) = Some 3 \<and>
   db (handleNewGamePlus True runCompleted) = None \<and>
   map_option p_completedLevels (gameProgress (handleNewGamePlus True runCompleted))
     = Some [''1'', ''2a'', ''3'', ''4b'', ''5''] \<and>
   completedRunsOf
     (gameProgress (loadProgress True (initialState (db (handleNewGamePlus True runCompleted))))) = 0 \<and>
   screen (handleNewGamePlus False runCompleted) = GameComplete"
  by (simp add: runCompleted_eq handleNewGamePlus_def loadProgress_def initialState_def
      completedRunsOf_def)

text \<open>
  C4, as the code has it. After a successful delete the stored record is gone,
  the run variables are reset (no squad, no completed mission, score 0, current
  mission 1), the record held in \<open>gameProgress\<close> and the options are
  untouched, and the wingman screen is shown. The next record is written when a
  team of two is confirmed: it has the fresh run fields, the options and the
  \<open>completedRuns\<close> of the record held in memory. A rejected delete changes
  nothing.
\<close>

theorem newGamePlus_resets_run:
  "selectedWingmen (handleNewGamePlus True s) = [] \<and>
   completedLevels (handleNewGamePlus True s) = [] \<and>
   totalScore (handleNewGamePlus True s) = 0 \<and>
   currentLevel (handleNewGamePlus True s) = ''1'' \<and>
   screen (handleNewGamePlus True s) = WingmanChoice \<and>
   db (handleNewGamePlus True s) = None \<and>
   gameProgress (handleNewGamePlus True s) = gameProgress s \<and>
   options (handleNewGamePlus True s) = options s \<and>
   (w1 \<noteq> w2 \<longrightarrow>
      db (clickConfirm True (toggleWingman w2 (toggleWingman w1 (handleNewGamePlus True s)))) =
        Some \<lparr>p_options = options s, p_currentLevel = ''1'', p_completedLevels = [],
              p_selectedWingmen = [w1, w2], p_totalScore = 0,
              p_completedRuns = completedRunsOf (gameProgress s)\<rparr>) \<and>
   handleNewGamePlus False s = s"
proof -
  have "w1 \<noteq> w2 \<longrightarrow>
      db (clickConfirm True (toggleWingman w2 (toggleWingman w1 (handleNewGamePlus True s)))) =
        Some \<lparr>p_options = options s, p_currentLevel = ''1'', p_completedLevels = [],
              p_selectedWingmen = [w1, w2], p_totalScore = 0,
              p_completedRuns = completedRunsOf (gameProgress s)\<rparr>"
    by (simp add: handleNewGamePlus_def toggleWingman_def handleToggle_def maxSelections_def
        clickConfirm_def confirmDisabled_def handleWingmenConfirm_def saveProgress_def
        snapshot_def Let_def)
  moreover have "handleNewGamePlus False s = s"
    by (simp add: handleNewGamePlus_def)
  ultimately show ?thesis
    by (simp add: handleNewGamePlus_def)
qed

theorem newGamePlus_resets_run_witness:
  "completedLevels (handleNewGamePlus True runCompleted) = [] \<and>
   completedRunsOf (gameProgress (handleNewGamePlus True runCompleted)) = 3 \<and>
   db (handleNewGamePlus True runCompleted) = None \<and>
   map_option p_completedRuns
     (db (clickConfirm True (toggleWingman ''slippy'' (toggleWingman ''falco''
        (handleNewGamePlus True runCompleted))))) = Some 3"
proof -
  note t = newGamePlus_resets_run [of runCompleted "''falco''" "''slippy''"]
  have g: "gameProgress (handleNewGamePlus True runCompleted) = gameProgress runCompleted"
    using t by blast
  have r: "completedRunsOf (gameProgress runCompleted) = 3"
    by (simp add: runCompleted_eq completedRunsOf_def)
  have n: "''falco'' \<noteq> ''slippy''" by simp
  have d: "db (clickConfirm True (toggleWingman ''slippy'' (toggleWingman ''falco''
        (handleNewGamePlus True runCompleted)))) =
        Some \<lparr>p_options = options runCompleted, p_currentLevel = ''1'', p_completedLevels = [],
              p_selectedWingmen = [''falco'', ''slippy''], p_totalScore = 0,
              p_completedRuns = completedRunsOf (gameProgress runCompleted)\<rparr>"
    using t n by blast
  have "completedLevels (handleNewGamePlus True runCompleted) = []"
    and "db (handleNewGamePlus True runCompleted) = None"
    using t by blast+
  then show ?thesis
    unfolding d g by (simp add: r)
qed

text \<open>
  C5. Continue restores the squad, the completed path, the score and the
  current mission (mission 1 when the record has none) from the record held in
  \<open>gameProgress\<close>, and shows the campaign-choice screen when the path is not
  empty, otherwise the mission briefing when the squad is not empty, otherwise
  the wingman screen.
\<close>

theorem resume_destination:
  assumes "gameProgress s = Some g"
  shows "screen (handleContinue s) =
           (if p_completedLevels g \<noteq> [] then CampaignChoice
            else if p_selectedWingmen g \<noteq> [] then Mission
            else WingmanChoice) \<and>
         selectedWingmen (handleContinue s) = p_selectedWingmen g \<and>
         completedLevels (handleContinue s) = p_completedLevels g \<and>
         totalScore (handleContinue s) = p_totalScore g \<and>
         currentLevel (handleContinue s) =
           (if p_currentLevel g = [] then ''1'' else p_currentLevel g) \<and>
         gameProgress (handleContinue s) = Some g \<and>
         db (handleContinue s) = db s \<and>
         options (handleContinue s) = options s"
  using assms by (simp add: handleContinue_def)

theorem resume_destination_witness:
  "screen (handleContinue (loadProgress True (initialState (Some savedBeforeFinal))))
     = CampaignChoice \<and>
   completedLevels (handleContinue (loadProgress True (initialState (Some savedBeforeFinal))))
     = [''1'', ''2a'', ''3'', ''4b''] \<and>
   currentLevel (handleContinue (loadProgress True (initialState (Some savedBeforeFinal)))) = ''5'' \<and>
   screen (handleContinue (loadProgress True (initialState (Some savedStrangers)))) = Mission \<and>
   screen (handleContinue (loadProgress True (initialState (Some savedNothing)))) = WingmanChoice"
proof -
  have g: "gameProgress (loadProgress True (initialState (Some g))) = Some g" for g
    by (simp add: loadProgress_saved)
  have "screen (handleContinue (loadProgress True (initialState (Some savedStrangers)))) = Mission"
    using resume_destination [OF g, of savedStrangers] by (simp add: savedStrangers_def)
  moreover have "screen (handleContinue (loadProgress True (initialState (Some savedNothing))))
                   = WingmanChoice"
    using resume_destination [OF g, of savedNothing] by (simp add: savedNothing_def)
  ultimately show ?thesis
    using resume_destination [OF g, of savedBeforeFinal] by (simp add: savedBeforeFinal_def)
qed



text \<open>
  C7. An outcome that is not a victory is kept as \<open>lastResults\<close> and shown;
  nothing else changes. Acknowledging it (the retry) returns to the mission
  briefing with the score, the completed path, the squad, the current mission
  and the stored record as they were before the outcome arrived.
\<close>

theorem failed_outcome_frame:
  assumes "\<not> completed r"
  shows "onExternalLevelResults (Some r) False s = s\<lparr>lastResults := Some r, screen := Results\<rparr> \<and>
         handleResultsContinue ok (onExternalLevelResults (Some r) False s) =
           s\<lparr>lastResults := Some r, screen := Mission\<rparr> \<and>
         totalScore (handleResultsContinue ok (onExternalLevelResults (Some r) False s)) =
           totalScore s \<and>
         completedLevels (handleResultsContinue ok (onExternalLevelResults (Some r) False s)) =
           completedLevels s \<and>
         selectedWingmen (handleResultsContinue ok (onExternalLevelResults (Some r) False s)) =
           selectedWingmen s \<and>
         currentLevel (handleResultsContinue ok (onExternalLevelResults (Some r) False s)) =
           currentLevel s \<and>
         db (handleResultsContinue ok (onExternalLevelResults (Some r) False s)) = db s \<and>
         gameProgress (handleResultsContinue ok (onExternalLevelResults (Some r) False s)) =
           gameProgress s"
proof -
  let ?s1 = "onExternalLevelResults (Some r) False s"
  have s1: "?s1 = s\<lparr>lastResults := Some r, screen := Results\<rparr>"
    by (simp add: onExternalLevelResults_def)
  have c: "\<not> resultsCompleted (lastResults ?s1)"
    using assms by (simp add: s1 resultsCompleted_def)
  have s2: "handleResultsContinue ok ?s1 = s\<lparr>lastResults := Some r, screen := Mission\<rparr>"
    using hrc_retry [OF c, of ok] by (simp add: s1)
  show ?thesis
    unfolding s2 using s1 by simp
qed

theorem failed_outcome_frame_witness:
  "\<not> completed defeat \<and>
   lastResults (onExternalLevelResults (Some defeat) False launchedRun) = Some defeat \<and>
   screen (onExternalLevelResults (Some defeat) False launchedRun) = Results \<and>
   screen (handleResultsContinue True (onExternalLevelResults (Some defeat) False launchedRun))
     = Mission \<and>
   totalScore (handleResultsContinue True (onExternalLevelResults (Some defeat) False launchedRun))
     = 0 \<and>
   completedLevels (handleResultsContinue True (onExternalLevelResults (Some defeat) False launchedRun))
     = []"
proof -
  have d: "\<not> completed defeat" by (simp add: defeat_def)
  note t = failed_outcome_frame [OF d, of launchedRun True]
  have s1: "onExternalLevelResults (Some defeat) False launchedRun =
              launchedRun\<lparr>lastResults := Some defeat, screen := Results\<rparr>"
    using t by (rule conjunct1)
  have s2: "handleResultsContinue True (onExternalLevelResults (Some defeat) False launchedRun) =
              launchedRun\<lparr>lastResults := Some defeat, screen := Mission\<rparr>"
    using t by blast
  show ?thesis
    unfolding s2 unfolding s1 using d by (simp add: launchedRun_eq)
qed

text \<open>
  C8. The claim: confirming a squad fails with InvalidSquadSize unless two
  members are selected and with UnknownMember when a member is not in the
  roster. The code has neither error and never compares the selection with the
  roster: at \<open>strangersSelected\<close> two pilots outside the roster are confirmed,
  saved and taken to the briefing.
\<close>

theorem unknown_members_confirmed_counterexample:
  "screen strangersSelected = WingmanChoice \<and>
   selectedWingmen strangersSelected = [''krystal'', ''bill''] \<and>
   ''krystal'' \<notin> set rosterIds \<and> ''bill'' \<notin> set rosterIds \<and>
   screen (clickConfirm True strangersSelected) = Mission \<and>
   map_option p_selectedWingmen (db (clickConfirm True strangersSelected))
     = Some [''krystal'', ''bill'']"
  by (simp add: strangersSelected_eq rosterIds_eq clickConfirm_def confirmDisabled_def
      maxSelections_def handleWingmenConfirm_def saveProgress_def snapshot_def Let_def)

text \<open>
  C8, as the code has it. The Confirm Team button is disabled unless exactly two
  members are selected, so with any other number confirming does nothing. With
  two selected ids, in the roster or not, the briefing follows, the selection is
  kept, and a successful write stores it. The selection screen itself offers the
  roster only: clicks on roster cards, starting from no selection, select roster
  ids.
\<close>

theorem confirm_gated_by_size_only:
  "(length (selectedWingmen s) \<noteq> 2 \<longrightarrow> clickConfirm ok s = s) \<and>
   (length (selectedWingmen s) = 2 \<longrightarrow>
      screen (clickConfirm ok s) = Mission \<and>
      selectedWingmen (clickConfirm ok s) = selectedWingmen s \<and>
      (ok \<longrightarrow> (\<exists>p. db (clickConfirm ok s) = Some p \<and>
                    gameProgress (clickConfirm ok s) = Some p \<and>
                    p_selectedWingmen p = selectedWingmen s)) \<and>
      (\<not> ok \<longrightarrow> db (clickConfirm ok s) = db s)) \<and>
   (set ws \<subseteq> set rosterIds \<longrightarrow> set (toggles [] ws) \<subseteq> set rosterIds)"
proof -
  have "length (selectedWingmen s) \<noteq> 2 \<longrightarrow> clickConfirm ok s = s"
    by (simp add: clickConfirm_def confirmDisabled_def maxSelections_def)
  moreover have "length (selectedWingmen s) = 2 \<longrightarrow>
      screen (clickConfirm ok s) = Mission \<and>
      selectedWingmen (clickConfirm ok s) = selectedWingmen s \<and>
      (ok \<longrightarrow> (\<exists>p. db (clickConfirm ok s) = Some p \<and>
                    gameProgress (clickConfirm ok s) = Some p \<and>
                    p_selectedWingmen p = selectedWingmen s)) \<and>
      (\<not> ok \<longrightarrow> db (clickConfirm ok s) = db s)"
    by (simp add: clickConfirm_def confirmDisabled_def maxSelections_def handleWingmenConfirm_def
        saveProgress_def Let_def)
  moreover have "set ws \<subseteq> set rosterIds \<longrightarrow> set (toggles [] ws) \<subseteq> set rosterIds"
    using toggles_subset [of "[]" ws] by auto
  ultimately show ?thesis by blast
qed

theorem confirm_gated_by_size_only_witness:
  "clickConfirm True (handleNewGame (loadProgress True (initialState None)))
     = handleNewGame (loadProgress True (initialState None)) \<and>
   length (selectedWingmen strangersSelected) = 2 \<and>
   screen (clickConfirm True strangersSelected) = Mission \<and>
   map_option p_selectedWingmen (db (clickConfirm True strangersSelected))
     = Some [''krystal'', ''bill''] \<and>
   db (clickConfirm False strangersSelected) = Some savedStrangers \<and>
   set (toggles [] [''falco'', ''slippy'']) \<subseteq> set rosterIds"
proof -
  have e: "length (selectedWingmen (handleNewGame (loadProgress True (initialState None)))) \<noteq> 2"
    by (simp add: handleNewGame_def)
  have l: "length (selectedWingmen strangersSelected) = 2"
    by (simp add: strangersSelected_eq)
  have w: "selectedWingmen strangersSelected = [''krystal'', ''bill'']"
    by (simp add: strangersSelected_eq)
  have d: "db strangersSelected = Some savedStrangers"
    by (simp add: strangersSelected_eq)
  have r: "set [''falco'', ''slippy''] \<subseteq> set rosterIds"
    by (simp add: rosterIds_eq)
  have "clickConfirm True (handleNewGame (loadProgress True (initialState None)))
     = handleNewGame (loadProgress True (initialState None))"
    using confirm_gated_by_size_only [of "handleNewGame (loadProgress True (initialState None))" True "[]"] e
    by blast
  moreover have "screen (clickConfirm True strangersSelected) = Mission"
    using confirm_gated_by_size_only [of strangersSelected True "[]"] l by blast
  moreover have "\<exists>p. db (clickConfirm True strangersSelected) = Some p \<and>
                     p_selectedWingmen p = selectedWingmen strangersSelected"
    using confirm_gated_by_size_only [of strangersSelected True "[]"] l by blast
  then have "map_option p_selectedWingmen (db (clickConfirm True strangersSelected))
     = Some [''krystal'', ''bill'']"
    unfolding w by auto
  moreover have "db (clickConfirm False strangersSelected) = db strangersSelected"
    using confirm_gated_by_size_only [of strangersSelected False "[]"] l by blast
  moreover have "set (toggles [] [''falco'', ''slippy'']) \<subseteq> set rosterIds"
    using confirm_gated_by_size_only [of strangersSelected True "[''falco'', ''slippy'']"] r by blast
  ultimately show ?thesis using l d by simp
qed

text \<open>
  C9. For every \<open>n\<close>, the unlocks listed are exactly the configured tiers with
  number at most \<open>n\<close>, in ascending order (the first \<open>n\<close> rows of the
  table, at most five); the new unlock is the tier with number \<open>n\<close> when the
  table has one and none for 0 and above 5; from 5 on nothing more is unlocked.
\<close>

theorem unlock_policy:
  "set (unlocks n) = {u. \<exists>t. t \<le> n \<and> (t, u) \<in> set NEW_GAME_PLUS_UNLOCKS} \<and>
   unlocks n = map snd (take n NEW_GAME_PLUS_UNLOCKS) \<and>
   length (unlocks n) = min n 5 \<and>
   (newUnlock n = Some u \<longleftrightarrow> (n, u) \<in> set NEW_GAME_PLUS_UNLOCKS) \<and>
   (newUnlock n = None \<longleftrightarrow> n = 0 \<or> 5 < n) \<and>
   (5 \<le> n \<longrightarrow> unlocks n = unlocks 5 \<and> newUnlock (Suc n) = None)"
proof -
  have len: "length (unlocks n) = min n 5"
    by (simp add: unlocks_take) (simp add: NEW_GAME_PLUS_UNLOCKS_def)
  have none: "newUnlock n = None \<longleftrightarrow> n = 0 \<or> 5 < n"
  proof -
    consider "n = 0" | "n = 1" | "n = 2" | "n = 3" | "n = 4" | "n = 5" | "5 < n" by linarith
    then show ?thesis
      by cases (simp_all add: newUnlock_def NEW_GAME_PLUS_UNLOCKS_def)
  qed
  have cap: "5 \<le> n \<longrightarrow> unlocks n = unlocks 5 \<and> newUnlock (Suc n) = None"
    by (simp add: unlocks_capped newUnlock_beyond)
  show ?thesis
    using unlocks_set [of n] unlocks_take [of n] len newUnlock_Some_iff [of n u] none cap
    by blast
qed

theorem unlock_policy_witness:
  "unlocks 7 = unlocks 5 \<and> newUnlock 8 = None \<and> length (unlocks 7) = 5 \<and>
   unlocks 2 = [\<lparr>unlock_name = ''Expert Mode'', unlock_description = ''Enemies deal 50% more damage''\<rparr>,
                \<lparr>unlock_name = ''Hyper Laser'', unlock_description = ''Start with upgraded weapons''\<rparr>]"
proof -
  have h: "(5::nat) \<le> 7" by simp
  have "unlocks 7 = unlocks 5" "newUnlock (Suc 7) = None" "length (unlocks 7) = min 7 5"
    using unlock_policy [of 7] h by blast+
  moreover have "unlocks 2 = map snd (take 2 NEW_GAME_PLUS_UNLOCKS)"
    using unlock_policy [of 2] by blast
  ultimately show ?thesis
    by (simp add: NEW_GAME_PLUS_UNLOCKS_def)
qed

text \<open>
  C10. Whatever cards are clicked on the wingman screen, starting from no
  selection, the selection has no duplicate and at most two members. Clicking a
  selected member removes that member and nothing else; clicking an unselected
  member when two are selected changes nothing, and otherwise appends it. One
  click keeps any selection that is free of duplicates and has at most two
  members in that form.
\<close>

theorem selection_invariant:
  "distinct (toggles [] ws) \<and> length (toggles [] ws) \<le> 2 \<and>
   (w \<in> set (toggles [] ws) \<longrightarrow>
      handleToggle 2 (toggles [] ws) w = remove1 w (toggles [] ws) \<and>
      w \<notin> set (handleToggle 2 (toggles [] ws) w) \<and>
      length (handleToggle 2 (toggles [] ws) w) = length (toggles [] ws) - 1) \<and>
   (w \<notin> set (toggles [] ws) \<and> length (toggles [] ws) = 2 \<longrightarrow>
      handleToggle 2 (toggles [] ws) w = toggles [] ws) \<and>
   (w \<notin> set (toggles [] ws) \<and> length (toggles [] ws) < 2 \<longrightarrow>
      handleToggle 2 (toggles [] ws) w = toggles [] ws @ [w]) \<and>
   (distinct sel \<and> length sel \<le> 2 \<longrightarrow>
      distinct (handleToggle 2 sel w) \<and> length (handleToggle 2 sel w) \<le> 2)"
proof -
  let ?sel = "toggles [] ws"
  have inv: "distinct ?sel \<and> length ?sel \<le> maxSelections"
    by (rule toggles_invariant) simp_all
  then have d: "distinct ?sel" and l: "length ?sel \<le> 2"
    by (simp_all add: maxSelections_def)
  have rem: "w \<in> set ?sel \<longrightarrow>
      handleToggle 2 ?sel w = remove1 w ?sel \<and>
      w \<notin> set (handleToggle 2 ?sel w) \<and>
      length (handleToggle 2 ?sel w) = length ?sel - 1"
  proof
    assume m: "w \<in> set ?sel"
    have e: "handleToggle 2 ?sel w = remove1 w ?sel"
      using handleToggle_selected [OF m, of 2] filter_neq_remove1 [OF d, of w] by simp
    show "handleToggle 2 ?sel w = remove1 w ?sel \<and>
      w \<notin> set (handleToggle 2 ?sel w) \<and>
      length (handleToggle 2 ?sel w) = length ?sel - 1"
      unfolding e using m d by (simp add: length_remove1)
  qed
  have full: "w \<notin> set ?sel \<and> length ?sel = 2 \<longrightarrow> handleToggle 2 ?sel w = ?sel"
    by (simp add: handleToggle_full)
  have add: "w \<notin> set ?sel \<and> length ?sel < 2 \<longrightarrow> handleToggle 2 ?sel w = ?sel @ [w]"
    by (simp add: handleToggle_add)
  have step: "distinct sel \<and> length sel \<le> 2 \<longrightarrow>
      distinct (handleToggle 2 sel w) \<and> length (handleToggle 2 sel w) \<le> 2"
    using handleToggle_distinct [of sel 2 w] handleToggle_length [of sel 2 w] by blast
  from d l rem full add step show ?thesis by blast
qed

theorem selection_invariant_witness:
  "toggles [] [''falco'', ''peppy'', ''slippy''] = [''falco'', ''peppy''] \<and>
   handleToggle 2 (toggles [] [''falco'', ''peppy'']) ''slippy'' = [''falco'', ''peppy''] \<and>
   handleToggle 2 (toggles [] [''falco'', ''peppy'']) ''falco'' = [''peppy''] \<and>
   handleToggle 2 (toggles [] [''falco'', ''peppy'', ''falco'']) ''slippy'' = [''peppy'', ''slippy''] \<and>
   distinct (toggles [] [''falco'', ''peppy'', ''slippy'', ''falco'', ''slippy'']) \<and>
   distinct (handleToggle 2 [''krystal'', ''bill''] ''bill'') \<and>
   length (handleToggle 2 [''krystal'', ''bill''] ''bill'') \<le> 2"
proof -
  have t2: "toggles [] [''falco'', ''peppy''] = [''falco'', ''peppy'']"
    by (simp add: handleToggle_def maxSelections_def)
  have t3: "toggles [] [''falco'', ''peppy'', ''falco''] = [''peppy'']"
    by (simp add: handleToggle_def maxSelections_def)
  have a: "''slippy'' \<notin> set (toggles [] [''falco'', ''peppy'']) \<and>
           length (toggles [] [''falco'', ''peppy'']) = 2"
    unfolding t2 by simp
  have b: "''falco'' \<in> set (toggles [] [''falco'', ''peppy''])"
    unfolding t2 by simp
  have c: "''slippy'' \<notin> set (toggles [] [''falco'', ''peppy'', ''falco'']) \<and>
           length (toggles [] [''falco'', ''peppy'', ''falco'']) < 2"
    unfolding t3 by simp
  have k: "distinct [''krystal'', ''bill''] \<and> length [''krystal'', ''bill''] \<le> 2"
    by simp
  have "handleToggle 2 (toggles [] [''falco'', ''peppy'']) ''slippy'' = toggles [] [''falco'', ''peppy'']"
    using selection_invariant [of "[''falco'', ''peppy'']" "''slippy''"] a by blast
  moreover have "handleToggle 2 (toggles [] [''falco'', ''peppy'']) ''falco''
                   = remove1 ''falco'' (toggles [] [''falco'', ''peppy''])"
    using selection_invariant [of "[''falco'', ''peppy'']" "''falco''"] b by blast
  moreover have "handleToggle 2 (toggles [] [''falco'', ''peppy'', ''falco'']) ''slippy''
                   = toggles [] [''falco'', ''peppy'', ''falco''] @ [''slippy'']"
    using selection_invariant [of "[''falco'', ''peppy'', ''falco'']" "''slippy''"] c by blast
  moreover have "distinct (toggles [] [''falco'', ''peppy'', ''slippy'', ''falco'', ''slippy''])"
    using selection_invariant [of "[''falco'', ''peppy'', ''slippy'', ''falco'', ''slippy'']"] by blast
  moreover have "distinct (handleToggle 2 [''krystal'', ''bill''] ''bill'') \<and>
                 length (handleToggle 2 [''krystal'', ''bill''] ''bill'') \<le> 2"
    using selection_invariant [of "[]" "''bill''" "[''krystal'', ''bill'']"] k by blast
  ultimately show ?thesis
    unfolding t2 t3 toggles_three by simp
qed

end
